theory Spec2Isabelle
  imports Complex_Main "HOL-Library.AList"
begin

section \<open>Values shared by the whole module\<close>

text \<open>
  The development embeds \<^verbatim>\<open>django_statsd/middleware.py\<close> and
  \<^verbatim>\<open>django_statsd/celery.py\<close>.

  Python floats (timestamps, durations, the sample rate) are values of a type \<open>'f\<close> of
  which only \<open>0\<close>, \<open>1\<close>, \<open>+\<close> and \<open>-\<close> are used and no algebraic law is assumed, so every
  statement below holds for the interpreter's own arithmetic. Python integers are \<open>int\<close>.
  A \<^verbatim>\<open>dict\<close> is an association list in insertion order with distinct keys:
  \<open>map_of\<close> reads it, \<open>AList.update\<close> assigns (in place for a present key, at the end
  for a new one) and \<open>AList.delete\<close> removes a key; a loop over a dict visits it in
  this order. A \<^verbatim>\<open>deque\<close> is a list whose
  right end is its last element. Every \<^verbatim>\<open>assert\<close> is executed, as it is unless the
  interpreter runs with \<^verbatim>\<open>-O\<close>. A call of \<^verbatim>\<open>time.time()\<close> is an input: the
  operation that makes it takes the reading as its argument \<open>now\<close>.
\<close>

datatype error = AssertionError | AttributeError | NameError | KeyError

text \<open>
  The settings the module reads. \<open>None\<close> stands for a setting that is not defined
  (or is \<^verbatim>\<open>None\<close>), which \<^verbatim>\<open>getattr(settings, name, default)\<close> replaces by its default.
\<close>

record 'f settings =
  DEBUG :: bool
  STATSD_TRACK_MIDDLEWARE :: bool
  STATSD_SAMPLE_RATE :: "'f option"
  STATSD_PREFIX :: "string option"

text \<open>
  Lines 15 to 25: the module global \<^verbatim>\<open>sample_rate\<close> is assigned inside
  \<^verbatim>\<open>if TRACK_MIDDLEWARE:\<close> only. \<open>None\<close> is the unbound name, whose use raises
  \<^verbatim>\<open>NameError\<close>.
\<close>

definition TRACK_MIDDLEWARE :: "'f settings \<Rightarrow> bool" where
  "TRACK_MIDDLEWARE cfg = STATSD_TRACK_MIDDLEWARE cfg"

definition sample_rate :: "('f::one) settings \<Rightarrow> 'f option" where
  "sample_rate cfg =
     (if TRACK_MIDDLEWARE cfg
      then Some (case STATSD_SAMPLE_RATE cfg of None \<Rightarrow> 1 | Some r \<Rightarrow> r)
      else None)"

text \<open>
  The calls received by the statistics backend, \<^verbatim>\<open>statsd.increment(name, value,
  tags=, sample_rate=)\<close> and \<^verbatim>\<open>statsd.timing(name, value, tags=, sample_rate=)\<close>, in
  the order they are made.
\<close>

datatype 'f emission =
    Increment string int "string list" 'f
  | Timing string 'f "string list" 'f

fun emission_name :: "'f emission \<Rightarrow> string" where
  "emission_name (Increment n v tg r) = n"
| "emission_name (Timing n v tg r) = n"

text \<open>
  The argument \<^verbatim>\<open>tags\<close> of \<^verbatim>\<open>submit\<close>: a dict from strings to strings, or a
  plain string (what \<^verbatim>\<open>celery.stop\<close> passes).
\<close>

datatype tags_arg = TagDict "(string \<times> string) list" | TagStr string

text \<open>
  \<^verbatim>\<open>[k + ":" + v for k, v in tags.items()]\<close>; a \<^verbatim>\<open>str\<close> has no \<^verbatim>\<open>items\<close>.
\<close>

definition format_tags :: "tags_arg \<Rightarrow> error + string list" where
  "format_tags tags =
     (case tags of
        TagStr s \<Rightarrow> Inl AttributeError
      | TagDict d \<Rightarrow> Inr (map (\<lambda>(k, v). k @ '':'' @ v) d))"

text \<open>
  \<^verbatim>\<open>d[key]\<close> on a \<^verbatim>\<open>collections.defaultdict\<close>: a missing key is first inserted
  with the default value. The result is the value read and the dict afterwards.
\<close>

definition defaultdict_getitem :: "'v \<Rightarrow> 'k \<Rightarrow> ('k \<times> 'v) list \<Rightarrow> 'v \<times> ('k \<times> 'v) list" where
  "defaultdict_getitem dflt key d =
     (case map_of d key of
        None \<Rightarrow> (dflt, d @ [(key, dflt)])
      | Some v \<Rightarrow> (v, d))"

section \<open>Client, Counter and Timer\<close>

record 'v Client =
  prefix :: string
  data :: "(string \<times> 'v) list"

text \<open>\<^verbatim>\<open>Client.__init__\<close>: the global prefix is used when it is truthy (a non-empty string).\<close>

definition Client_init_prefix :: "'f settings \<Rightarrow> string \<Rightarrow> string" where
  "Client_init_prefix cfg p =
     (case STATSD_PREFIX cfg of
        None \<Rightarrow> p
      | Some g \<Rightarrow> if g \<noteq> [] then g @ ''.'' @ p else p)"

type_synonym Counter = "int Client"

definition Counter_init :: "'f settings \<Rightarrow> string \<Rightarrow> Counter" where
  "Counter_init cfg p = \<lparr>prefix = Client_init_prefix cfg p, data = []\<rparr>"

definition Counter_increment :: "string \<Rightarrow> int \<Rightarrow> Counter \<Rightarrow> Counter" where
  "Counter_increment key delta c =
     (let (v, d) = defaultdict_getitem 0 key (data c)
      in c\<lparr>data := AList.update key (v + delta) d\<rparr>)"

definition Counter_decrement :: "string \<Rightarrow> int \<Rightarrow> Counter \<Rightarrow> Counter" where
  "Counter_decrement key delta c =
     (let (v, d) = defaultdict_getitem 0 key (data c)
      in c\<lparr>data := AList.update key (v - delta) d\<rparr>)"

text \<open>
  The loop of \<^verbatim>\<open>Counter.submit\<close> over \<^verbatim>\<open>self.data.items()\<close>. The arguments of
  \<^verbatim>\<open>statsd.increment\<close> are evaluated before the call, so an unbound
  \<^verbatim>\<open>sample_rate\<close> raises at the first non-zero value, before anything is emitted.
\<close>

fun Counter_submit_loop ::
  "'f option \<Rightarrow> string \<Rightarrow> string list \<Rightarrow> (string \<times> int) list \<Rightarrow> error option \<times> 'f emission list" where
  "Counter_submit_loop sr p tg [] = (None, [])"
| "Counter_submit_loop sr p tg ((k, v) # kvs) =
     (if v \<noteq> 0 then
        (case sr of
           None \<Rightarrow> (Some NameError, [])
         | Some r \<Rightarrow>
             (let (e, es) = Counter_submit_loop sr p tg kvs
              in (e, Increment (p @ ''.'' @ k) v tg r # es)))
      else Counter_submit_loop sr p tg kvs)"

text \<open>
  \<^verbatim>\<open>Counter.submit(tags)\<close>: the exception raised if any, the counter afterwards and
  the emissions made. No statement of the method assigns to \<^verbatim>\<open>self.data\<close>.
\<close>

definition Counter_submit ::
  "('f::one) settings \<Rightarrow> tags_arg \<Rightarrow> Counter \<Rightarrow> error option \<times> Counter \<times> 'f emission list" where
  "Counter_submit cfg tags c =
     (case format_tags tags of
        Inl e \<Rightarrow> (Some e, c, [])
      | Inr tg \<Rightarrow>
          (let (e, es) = Counter_submit_loop (sample_rate cfg) (prefix c) tg (data c)
           in (e, c, es)))"

record 'f Timer = "'f Client" +
  starts :: "(string \<times> 'f list) list"

definition Timer_init :: "'f settings \<Rightarrow> string \<Rightarrow> 'f Timer" where
  "Timer_init cfg p = \<lparr>prefix = Client_init_prefix cfg p, data = [], starts = []\<rparr>"

text \<open>\<^verbatim>\<open>self.starts[key].append(time.time())\<close>\<close>

definition Timer_start :: "string \<Rightarrow> 'f \<Rightarrow> 'f Timer \<Rightarrow> 'f Timer" where
  "Timer_start key now t =
     (let (s, st) = defaultdict_getitem [] key (starts t)
      in t\<lparr>starts := AList.update key (s @ [now]) st\<rparr>)"

text \<open>
  \<^verbatim>\<open>Timer.stop(key)\<close>: the exception or the value returned, and the timer afterwards.
  The subscription \<^verbatim>\<open>self.starts[key]\<close> inside the \<^verbatim>\<open>assert\<close> is evaluated (and
  inserts an empty deque for a missing key) before the assertion can fail.
\<close>

definition Timer_stop :: "string \<Rightarrow> ('f::{zero,plus,minus}) \<Rightarrow> 'f Timer \<Rightarrow> (error + 'f) \<times> 'f Timer" where
  "Timer_stop key now t =
     (let (s, st) = defaultdict_getitem [] key (starts t)
      in if s = [] then (Inl AssertionError, t\<lparr>starts := st\<rparr>)
         else
           (let delta = now - last s;
                s' = butlast s;
                st' = AList.update key s' st;
                st'' = (if s' = [] then AList.delete key st' else st');
                (v, d) = defaultdict_getitem 0 key (data t)
            in (Inr delta, t\<lparr>data := AList.update key (v + delta) d, starts := st''\<rparr>)))"

text \<open>
  The loop of \<^verbatim>\<open>Timer.submit\<close> over the snapshot \<^verbatim>\<open>list(self.data.keys())\<close>.
  \<^verbatim>\<open>self.data.pop(k)\<close> is an argument of \<^verbatim>\<open>statsd.timing\<close> evaluated before
  \<^verbatim>\<open>sample_rate\<close>: the key is removed even when the name is unbound.
\<close>

fun Timer_submit_loop ::
  "'f option \<Rightarrow> string \<Rightarrow> string list \<Rightarrow> string list \<Rightarrow> (string \<times> 'f) list
     \<Rightarrow> error option \<times> (string \<times> 'f) list \<times> 'f emission list" where
  "Timer_submit_loop sr p tg [] d = (None, d, [])"
| "Timer_submit_loop sr p tg (k # ks) d =
     (case map_of d k of
        None \<Rightarrow> (Some KeyError, d, [])
      | Some v \<Rightarrow>
          (let d' = AList.delete k d
           in case sr of
                None \<Rightarrow> (Some NameError, d', [])
              | Some r \<Rightarrow>
                  (let (e, d'', es) = Timer_submit_loop sr p tg ks d'
                   in (e, d'', Timing (p @ ''.'' @ k) v tg r # es))))"

text \<open>
  \<^verbatim>\<open>Timer.submit(tags)\<close>: the exception raised if any, the timer afterwards and the
  emissions made.
\<close>

definition Timer_submit ::
  "('f::one) settings \<Rightarrow> tags_arg \<Rightarrow> 'f Timer \<Rightarrow> error option \<times> 'f Timer \<times> 'f emission list" where
  "Timer_submit cfg tags t =
     (case format_tags tags of
        Inl e \<Rightarrow> (Some e, t, [])
      | Inr tg \<Rightarrow>
          (let (e, d, es) =
                 Timer_submit_loop (sample_rate cfg) (prefix t) tg (map fst (data t)) (data t);
               t' = t\<lparr>data := d\<rparr>
           in case e of
                Some x \<Rightarrow> (Some x, t', es)
              | None \<Rightarrow>
                  if DEBUG cfg \<and> starts t' \<noteq> [] then (Some AssertionError, t', es)
                  else (None, t', es)))"

section \<open>The scope and the middleware\<close>

text \<open>
  \<^verbatim>\<open>StatsdMiddleware.scope\<close> is one \<^verbatim>\<open>threading.local()\<close>; the model follows one
  thread. An attribute of the scope is \<open>None\<close> when it is unset or holds \<^verbatim>\<open>None\<close>
  (\<^verbatim>\<open>getattr(scope, name, None)\<close> does not tell the two apart, and a method call on
  either raises \<^verbatim>\<open>AttributeError\<close>). A \<^verbatim>\<open>Timer\<close> object is also held by the
  \<^verbatim>\<open>WithTimer\<close> made from it, so timers live in a store and \<open>scope_timings\<close> holds an
  address; \<open>timer_next\<close> is the first address not yet used. A \<^verbatim>\<open>Counter\<close> is
  reached through its scope attribute only and is kept there. \<open>view_name\<close> is the
  attribute of the middleware instance, \<open>request_statsd\<close> tells whether
  \<^verbatim>\<open>request.statsd\<close> holds the scope, and \<open>sink\<close> lists the calls made to the backend.
\<close>

record 'f world =
  timer_heap :: "nat \<Rightarrow> 'f Timer"
  timer_next :: nat
  scope_timings :: "nat option"
  scope_counter :: "Counter option"
  scope_counter_site :: "Counter option"
  view_name :: "string option"
  request_statsd :: bool
  sink :: "'f emission list"

definition set_timer :: "nat \<Rightarrow> 'f Timer \<Rightarrow> 'f world \<Rightarrow> 'f world" where
  "set_timer a t w = w\<lparr>timer_heap := (timer_heap w)(a := t)\<rparr>"

definition emit :: "'f emission list \<Rightarrow> 'f world \<Rightarrow> 'f world" where
  "emit es w = w\<lparr>sink := sink w @ es\<rparr>"

text \<open>
  \<^verbatim>\<open>StatsdMiddleware.start(prefix)\<close>: a new \<^verbatim>\<open>Timer\<close> object, on which \<^verbatim>\<open>total\<close>
  is started, and two new counters, each incremented by the default delta 1.
\<close>

definition StatsdMiddleware_start :: "'f settings \<Rightarrow> string \<Rightarrow> 'f \<Rightarrow> 'f world \<Rightarrow> 'f world" where
  "StatsdMiddleware_start cfg p now w =
     (let a = timer_next w;
          w1 = (set_timer a (Timer_init cfg p) w)\<lparr>timer_next := Suc a, scope_timings := Some a\<rparr>;
          w2 = set_timer a (Timer_start ''total'' now (timer_heap w1 a)) w1;
          w3 = w2\<lparr>scope_counter := Some (Counter_increment ''hit'' 1 (Counter_init cfg p))\<rparr>
      in w3\<lparr>scope_counter_site := Some (Counter_increment ''hit'' 1 (Counter_init cfg p))\<rparr>)"

text \<open>
  A \<^verbatim>\<open>submit\<close> called through a scope attribute that may hold \<^verbatim>\<open>None\<close>; the
  counter after the call is stored back, the emissions go to the sink.
\<close>

definition submit_counter ::
  "('f::one) settings \<Rightarrow> tags_arg \<Rightarrow> Counter option \<Rightarrow> 'f world
     \<Rightarrow> error option \<times> Counter option \<times> 'f world" where
  "submit_counter cfg tags co w =
     (case co of
        None \<Rightarrow> (Some AttributeError, None, w)
      | Some c \<Rightarrow>
          (let (e, c', es) = Counter_submit cfg tags c
           in (e, Some c', emit es w)))"

text \<open>\<^verbatim>\<open>StatsdMiddleware.stop(tags)\<close>\<close>

definition StatsdMiddleware_stop ::
  "('f::{zero,one,plus,minus}) settings \<Rightarrow> tags_arg \<Rightarrow> 'f \<Rightarrow> 'f world \<Rightarrow> (error + unit) \<times> 'f world" where
  "StatsdMiddleware_stop cfg tags now w =
     (case scope_timings w of
        None \<Rightarrow> (Inr (), w)
      | Some a \<Rightarrow>
          (let (r1, t1) = Timer_stop ''total'' now (timer_heap w a);
               w1 = set_timer a t1 w
           in case r1 of
                Inl e \<Rightarrow> (Inl e, w1)
              | Inr delta \<Rightarrow>
                  (let (e2, t2, es2) = Timer_submit cfg tags t1;
                       w2 = emit es2 (set_timer a t2 w1)
                   in case e2 of
                        Some e \<Rightarrow> (Inl e, w2)
                      | None \<Rightarrow>
                          (let (e3, c3, w3') = submit_counter cfg tags (scope_counter w2) w2;
                               w3 = w3'\<lparr>scope_counter := c3\<rparr>
                           in case e3 of
                                Some e \<Rightarrow> (Inl e, w3)
                              | None \<Rightarrow>
                                  (let (e4, c4, w4') =
                                         submit_counter cfg (TagDict [(''type'', ''site'')])
                                           (scope_counter_site w3) w3;
                                       w4 = w4'\<lparr>scope_counter_site := c4\<rparr>
                                   in case e4 of
                                        Some e \<Rightarrow> (Inl e, w4)
                                      | None \<Rightarrow> (Inr (), w4))))))"

text \<open>\<^verbatim>\<open>StatsdMiddleware.cleanup(request)\<close>, lines 179 to 183.\<close>

definition StatsdMiddleware_cleanup :: "'f world \<Rightarrow> 'f world" where
  "StatsdMiddleware_cleanup w =
     w\<lparr>scope_timings := None, scope_counter := None, view_name := None, request_statsd := False\<rparr>"

section \<open>The module-level helpers\<close>

definition start :: "string \<Rightarrow> 'f \<Rightarrow> 'f world \<Rightarrow> 'f world" where
  "start key now w =
     (case scope_timings w of
        Some a \<Rightarrow> set_timer a (Timer_start key now (timer_heap w a)) w
      | None \<Rightarrow> w)"

text \<open>\<^verbatim>\<open>stop(key)\<close> returns the duration, or \<^verbatim>\<open>None\<close> when there is no timer.\<close>

definition stop ::
  "string \<Rightarrow> ('f::{zero,plus,minus}) \<Rightarrow> 'f world \<Rightarrow> (error + 'f option) \<times> 'f world" where
  "stop key now w =
     (case scope_timings w of
        Some a \<Rightarrow>
          (let (r, t) = Timer_stop key now (timer_heap w a)
           in (case r of Inl e \<Rightarrow> Inl e | Inr delta \<Rightarrow> Inr (Some delta), set_timer a t w))
      | None \<Rightarrow> (Inr None, w))"

definition incr :: "string \<Rightarrow> int \<Rightarrow> 'f world \<Rightarrow> 'f world" where
  "incr key val w =
     (case scope_counter w of
        Some c \<Rightarrow> w\<lparr>scope_counter := Some (Counter_increment key val c)\<rparr>
      | None \<Rightarrow> w)"

definition decr :: "string \<Rightarrow> int \<Rightarrow> 'f world \<Rightarrow> 'f world" where
  "decr key val w =
     (case scope_counter w of
        Some c \<Rightarrow> w\<lparr>scope_counter := Some (Counter_decrement key val c)\<rparr>
      | None \<Rightarrow> w)"

text \<open>
  The two context managers. \<open>WithTimer a key\<close> holds the timer at address \<open>a\<close>
  (\<^verbatim>\<open>Timer.__call__\<close> passes \<^verbatim>\<open>self\<close>), whatever the scope holds later.
\<close>

datatype context_manager = WithTimer nat string | DummyWith

text \<open>The module function \<^verbatim>\<open>with_(key)\<close> (a name cannot end with an underscore here).\<close>

definition with_timer :: "string \<Rightarrow> 'f world \<Rightarrow> context_manager" where
  "with_timer key w =
     (case scope_timings w of
        Some a \<Rightarrow> WithTimer a key
      | None \<Rightarrow> DummyWith)"

fun enter :: "context_manager \<Rightarrow> 'f \<Rightarrow> 'f world \<Rightarrow> 'f world" where
  "enter (WithTimer a key) now w = set_timer a (Timer_start key now (timer_heap w a)) w"
| "enter DummyWith now w = w"

text \<open>
  \<^verbatim>\<open>__exit__\<close>: the exception it raises, or its return value \<^verbatim>\<open>None\<close> (which never
  suppresses the exception of the block).
\<close>

fun exit :: "context_manager \<Rightarrow> ('f::{zero,plus,minus}) \<Rightarrow> 'f world \<Rightarrow> (error + unit) \<times> 'f world" where
  "exit (WithTimer a key) now w =
     (let (r, t) = Timer_stop key now (timer_heap w a)
      in (case r of Inl e \<Rightarrow> Inl e | Inr delta \<Rightarrow> Inr (), set_timer a t w))"
| "exit DummyWith now w = (Inr (), w)"

text \<open>
  The statement \<^verbatim>\<open>with with_(name): return f(*args, **kwargs)\<close> of \<^verbatim>\<open>named_wrapper\<close>
  (and of \<^verbatim>\<open>wrapper\<close>, with the name it builds). The wrapped call \<open>f\<close> returns a value
  or raises, and changes the world; \<open>t_enter\<close> and \<open>t_exit\<close> are the clock readings of
  \<^verbatim>\<open>__enter__\<close> and \<^verbatim>\<open>__exit__\<close>. \<^verbatim>\<open>__exit__\<close> runs however the block ends;
  an exception it raises replaces the outcome of the block.
\<close>

definition named_wrapper ::
  "string \<Rightarrow> ('f world \<Rightarrow> (error + 'a) \<times> 'f world) \<Rightarrow> ('f::{zero,plus,minus}) \<Rightarrow> 'f \<Rightarrow> 'f world
     \<Rightarrow> (error + 'a) \<times> 'f world" where
  "named_wrapper name f t_enter t_exit w =
     (let cm = with_timer name w;
          w1 = enter cm t_enter w;
          (r, w2) = f w1;
          (x, w3) = exit cm t_exit w2
      in case x of
           Inl e \<Rightarrow> (Inl e, w3)
         | Inr u \<Rightarrow> (r, w3))"

section \<open>The celery signal handlers\<close>

text \<open>
  \<open>task\<close> is the name of the task object in \<^verbatim>\<open>kwargs\<close>, \<open>None\<close> when
  \<^verbatim>\<open>kwargs.get('task')\<close> is \<^verbatim>\<open>None\<close>.
\<close>

definition celery_start :: "'f settings \<Rightarrow> 'f \<Rightarrow> 'f world \<Rightarrow> 'f world" where
  "celery_start cfg now w = StatsdMiddleware_start cfg ''celery'' now w"

definition celery_stop ::
  "('f::{zero,one,plus,minus}) settings \<Rightarrow> string option \<Rightarrow> 'f \<Rightarrow> 'f world \<Rightarrow> (error + unit) \<times> 'f world" where
  "celery_stop cfg task now w =
     (case task of
        None \<Rightarrow> (Inl AttributeError, w)
      | Some name \<Rightarrow>
          (let (r, w1) = StatsdMiddleware_stop cfg (TagStr name) now w
           in case r of
                Inl e \<Rightarrow> (Inl e, w1)
              | Inr u \<Rightarrow> (Inr (), w1\<lparr>scope_timings := None\<rparr>)))"

definition celery_clear :: "'f world \<Rightarrow> 'f world" where
  "celery_clear w = w\<lparr>scope_timings := None\<rparr>"

section \<open>Notions used in the statements\<close>

text \<open>
  The start timestamps of \<open>key\<close> not yet stopped, oldest first, and the duration
  accumulated for \<open>key\<close>: what \<^verbatim>\<open>self.starts[key]\<close> and \<^verbatim>\<open>self.data[key]\<close> would
  read, without the insertion a \<^verbatim>\<open>defaultdict\<close> makes.
\<close>

definition outstanding :: "'f Timer \<Rightarrow> string \<Rightarrow> 'f list" where
  "outstanding t key = (case map_of (starts t) key of None \<Rightarrow> [] | Some s \<Rightarrow> s)"

definition accumulated :: "('f::zero) Timer \<Rightarrow> string \<Rightarrow> 'f" where
  "accumulated t key = (case map_of (data t) key of None \<Rightarrow> 0 | Some v \<Rightarrow> v)"

definition counted :: "Counter \<Rightarrow> string \<Rightarrow> int" where
  "counted c key = (case map_of (data c) key of None \<Rightarrow> 0 | Some v \<Rightarrow> v)"

text \<open>A dict has each key once.\<close>

definition wf_dict :: "('k \<times> 'v) list \<Rightarrow> bool" where
  "wf_dict d = distinct (map fst d)"

text \<open>
  A sequence of calls of \<^verbatim>\<open>increment\<close> and \<^verbatim>\<open>decrement\<close> on one counter, and the
  algebraic sum of the deltas it gives to a key.
\<close>

datatype counter_call = Inc string int | Dec string int

fun apply_call :: "Counter \<Rightarrow> counter_call \<Rightarrow> Counter" where
  "apply_call c (Inc key delta) = Counter_increment key delta c"
| "apply_call c (Dec key delta) = Counter_decrement key delta c"

definition run_calls :: "counter_call list \<Rightarrow> Counter \<Rightarrow> Counter" where
  "run_calls calls c = foldl apply_call c calls"

fun call_delta :: "string \<Rightarrow> counter_call \<Rightarrow> int" where
  "call_delta k (Inc key delta) = (if key = k then delta else 0)"
| "call_delta k (Dec key delta) = (if key = k then - delta else 0)"

definition delta_sum :: "string \<Rightarrow> counter_call list \<Rightarrow> int" where
  "delta_sum k calls = sum_list (map (call_delta k) calls)"

text \<open>
  Settings and a thread that has not run the middleware yet, for the concrete runs
  below: every setting at its default; \<^verbatim>\<open>STATSD_TRACK_MIDDLEWARE = True\<close> and
  everything else at its default; and the same with \<^verbatim>\<open>DEBUG = True\<close>.
\<close>

definition default_settings :: "real settings" where
  "default_settings =
     \<lparr>DEBUG = False, STATSD_TRACK_MIDDLEWARE = False, STATSD_SAMPLE_RATE = None,
      STATSD_PREFIX = None\<rparr>"

definition tracking_settings :: "real settings" where
  "tracking_settings =
     \<lparr>DEBUG = False, STATSD_TRACK_MIDDLEWARE = True, STATSD_SAMPLE_RATE = None,
      STATSD_PREFIX = None\<rparr>"

definition debug_settings :: "real settings" where
  "debug_settings =
     \<lparr>DEBUG = True, STATSD_TRACK_MIDDLEWARE = True, STATSD_SAMPLE_RATE = None,
      STATSD_PREFIX = None\<rparr>"

definition fresh_world :: "real world" where
  "fresh_world =
     \<lparr>timer_heap = (\<lambda>a. \<lparr>prefix = [], data = [], starts = []\<rparr>), timer_next = 0,
      scope_timings = None, scope_counter = None, scope_counter_site = None,
      view_name = None, request_statsd = False, sink = []\<rparr>"

section \<open>Dicts, timers and counters: basic facts\<close>

lemma Timer_start_outstanding:
  "outstanding (Timer_start key now t) k = (if k = key then outstanding t key @ [now] else outstanding t k)"
  by (auto simp: Timer_start_def outstanding_def defaultdict_getitem_def update_conv' map_add_def split: option.split prod.split)

lemma Timer_start_data: "data (Timer_start key now t) = data t"
  by (auto simp: Timer_start_def split: prod.split)

lemma Timer_stop_ok:
  "outstanding t key \<noteq> [] \<Longrightarrow> fst (Timer_stop key now t) = Inr (now - last (outstanding t key))"
  by (auto simp: Timer_stop_def outstanding_def defaultdict_getitem_def Let_def split: option.splits prod.splits)

lemma Timer_stop_ok_outstanding:
  "outstanding t key \<noteq> [] \<Longrightarrow> outstanding (snd (Timer_stop key now t)) k = (if k = key then butlast (outstanding t key) else outstanding t k)"
  by (auto simp: Timer_stop_def outstanding_def defaultdict_getitem_def Let_def update_conv' delete_conv' split: option.splits prod.splits)

lemma Timer_stop_ok_total:
  "outstanding t key \<noteq> [] \<Longrightarrow> accumulated (snd (Timer_stop key now t)) k = (if k = key then accumulated t key + (now - last (outstanding t key)) else accumulated t k)"
  by (auto simp: Timer_stop_def outstanding_def accumulated_def defaultdict_getitem_def Let_def update_conv' delete_conv' map_add_def split: option.splits prod.splits)

lemma Timer_start_accumulated: "accumulated (Timer_start key now t) k = accumulated t k"
  by (simp add: accumulated_def Timer_start_data)

lemma wf_getitem: "wf_dict d \<Longrightarrow> wf_dict (snd (defaultdict_getitem dflt key d))"
  by (auto simp: wf_dict_def defaultdict_getitem_def  split: option.split dest: weak_map_of_SomeI)

lemma Counter_decrement_eq: "Counter_decrement key delta c = Counter_increment key (- delta) c"
  by (simp add: Counter_decrement_def Counter_increment_def)

lemma Counter_increment_prefix: "prefix (Counter_increment key delta c) = prefix c"
  by (simp add: Counter_increment_def split: prod.split)

lemma Counter_increment_wf: "wf_dict (data c) \<Longrightarrow> wf_dict (data (Counter_increment key delta c))"
  using wf_getitem [of "data c" 0 key]
  by (cases "defaultdict_getitem 0 key (data c)")
     (simp add: Counter_increment_def wf_dict_def distinct_update)

lemma Counter_increment_counted:
  "counted (Counter_increment key delta c) k = (if k = key then counted c key + delta else counted c k)"
  by (auto simp: Counter_increment_def counted_def defaultdict_getitem_def update_conv' map_add_def split: option.split prod.split)

lemma apply_call_counted: "counted (apply_call c x) k = counted c k + call_delta k x"
  by (cases x) (simp_all add: Counter_decrement_eq Counter_increment_counted)

lemma apply_call_wf: "wf_dict (data c) \<Longrightarrow> wf_dict (data (apply_call c x))"
  by (cases x) (simp_all add: Counter_decrement_eq Counter_increment_wf)

lemma apply_call_prefix: "prefix (apply_call c x) = prefix c"
  by (cases x) (simp_all add: Counter_decrement_eq Counter_increment_prefix)

lemma run_calls_counted: "counted (run_calls calls c) k = counted c k + delta_sum k calls"
  unfolding run_calls_def delta_sum_def
  by (induction calls arbitrary: c) (simp_all add: apply_call_counted)

lemma run_calls_wf: "wf_dict (data c) \<Longrightarrow> wf_dict (data (run_calls calls c))"
  unfolding run_calls_def
  by (induction calls arbitrary: c) (simp_all add: apply_call_wf)

lemma run_calls_prefix: "prefix (run_calls calls c) = prefix c"
  unfolding run_calls_def
  by (induction calls arbitrary: c) (simp_all add: apply_call_prefix)

lemma Counter_submit_loop_bound:
  "Counter_submit_loop (Some r) p tg d =
     (None, map (\<lambda>(k, v). Increment (p @ ''.'' @ k) v tg r) (filter (\<lambda>(k, v). v \<noteq> 0) d))"
  by (induction d) (auto split: prod.split)

lemma Counter_submit_loop_unbound:
  "Counter_submit_loop None p tg d = (if \<exists>(k, v) \<in> set d. v \<noteq> 0 then Some NameError else None, [])"
  by (induction d) auto

lemma emitted_for_key:
  "wf_dict d \<Longrightarrow>
   filter (\<lambda>x. emission_name x = p @ ''.'' @ k)
     (map (\<lambda>(k, v). Increment (p @ ''.'' @ k) v tg r) (filter (\<lambda>(k, v). v \<noteq> 0) d)) =
   (case map_of d k of
      None \<Rightarrow> []
    | Some v \<Rightarrow> if v = 0 then [] else [Increment (p @ ''.'' @ k) v tg r])"
proof (induction d)
  case Nil
  then show ?case by simp
next
  case (Cons x d)
  obtain k' v' where x: "x = (k', v')" by (cases x)
  from Cons.prems have wf: "wf_dict d" and fresh: "k' \<notin> fst ` set d"
    by (simp_all add: wf_dict_def x)
  show ?case
  proof (cases "k' = k")
    case True
    with fresh have "map_of d k = None"
      by (simp add: map_of_eq_None_iff)
    with Cons.IH [OF wf] True show ?thesis
      by (simp add: x)
  next
    case False
    with Cons.IH [OF wf] show ?thesis
      by (simp add: x)
  qed
qed

lemma Counter_submit_keeps: "fst (snd (Counter_submit cfg tags c)) = c"
  by (simp add: Counter_submit_def split: sum.split prod.split)

lemma Timer_submit_loop_bound:
  "wf_dict d \<Longrightarrow>
   Timer_submit_loop (Some r) p tg (map fst d) d =
     (None, [], map (\<lambda>(k, v). Timing (p @ ''.'' @ k) v tg r) d)"
proof (induction d)
  case Nil
  then show ?case by simp
next
  case (Cons x d)
  obtain k v where x: "x = (k, v)" by (cases x)
  from Cons.prems have wf: "wf_dict d" and fresh: "k \<notin> fst ` set d"
    by (simp_all add: wf_dict_def x)
  from fresh have del: "AList.delete k d = d"
    by simp
  show ?case
    using Cons.IH [OF wf] by (simp add: x del)
qed

lemma Timer_submit_bound:
  assumes "wf_dict (data t)" and "sample_rate cfg = Some r"
  shows "Timer_submit cfg (TagDict tags) t =
           (if DEBUG cfg \<and> starts t \<noteq> [] then Some AssertionError else None,
            t\<lparr>data := []\<rparr>,
            map (\<lambda>(k, v). Timing (prefix t @ ''.'' @ k) v (map (\<lambda>(a, b). a @ '':'' @ b) tags) r) (data t))"
  using assms by (simp add: Timer_submit_def format_tags_def Timer_submit_loop_bound Let_def)

lemma timer_flush_clears:
  assumes "wf_dict (data t)" and "sample_rate cfg = Some r"
  shows "data (fst (snd (Timer_submit cfg (TagDict tags) t))) = [] \<and>
         snd (snd (Timer_submit cfg (TagDict tags') (fst (snd (Timer_submit cfg (TagDict tags) t))))) = []"
  using assms by (simp add: Timer_submit_bound wf_dict_def)

section \<open>The counter\<close>

text \<open>
  When \<^verbatim>\<open>sample_rate\<close> is bound, the flush of a new counter after any sequence of
  \<^verbatim>\<open>increment\<close> and \<^verbatim>\<open>decrement\<close> calls raises nothing and emits for a key exactly
  one event carrying the algebraic sum of the deltas when the sum is not zero, and no
  event when it is zero. A decrement by \<open>delta\<close> is an increment by \<open>- delta\<close>.
\<close>

lemma counter_flush_sum_when_bound:
  assumes "sample_rate cfg = Some r"
  shows "fst (Counter_submit cfg (TagDict tags) (run_calls calls (Counter_init cfg p))) = None \<and>
         filter (\<lambda>x. emission_name x = Client_init_prefix cfg p @ ''.'' @ k)
           (snd (snd (Counter_submit cfg (TagDict tags) (run_calls calls (Counter_init cfg p))))) =
         (if delta_sum k calls = 0 then []
          else [Increment (Client_init_prefix cfg p @ ''.'' @ k) (delta_sum k calls)
                  (map (\<lambda>(a, b). a @ '':'' @ b) tags) r]) \<and>
         Counter_decrement k delta c = Counter_increment k (- delta) c"
proof -
  define c1 where "c1 = run_calls calls (Counter_init cfg p)"
  have wf: "wf_dict (data c1)"
    unfolding c1_def by (rule run_calls_wf) (simp add: Counter_init_def wf_dict_def)
  have pre: "prefix c1 = Client_init_prefix cfg p"
    by (simp add: c1_def run_calls_prefix Counter_init_def)
  have "counted (Counter_init cfg p) k = 0"
    by (simp add: counted_def Counter_init_def)
  then have cnt: "counted c1 k = delta_sum k calls"
    by (simp add: c1_def run_calls_counted)
  have sub: "Counter_submit cfg (TagDict tags) c1 =
      (None, c1, map (\<lambda>(k, v). Increment (prefix c1 @ ''.'' @ k) v (map (\<lambda>(a, b). a @ '':'' @ b) tags) r)
                  (filter (\<lambda>(k, v). v \<noteq> 0) (data c1)))"
    by (simp add: Counter_submit_def format_tags_def assms Counter_submit_loop_bound)
  have em: "filter (\<lambda>x. emission_name x = prefix c1 @ ''.'' @ k)
               (snd (snd (Counter_submit cfg (TagDict tags) c1))) =
             (case map_of (data c1) k of
                None \<Rightarrow> []
              | Some v \<Rightarrow>
                  if v = 0 then []
                  else [Increment (prefix c1 @ ''.'' @ k) v (map (\<lambda>(a, b). a @ '':'' @ b) tags) r])"
    unfolding sub snd_conv by (rule emitted_for_key [OF wf])
  have "filter (\<lambda>x. emission_name x = prefix c1 @ ''.'' @ k)
               (snd (snd (Counter_submit cfg (TagDict tags) c1))) =
        (if delta_sum k calls = 0 then []
         else [Increment (prefix c1 @ ''.'' @ k) (delta_sum k calls)
                 (map (\<lambda>(a, b). a @ '':'' @ b) tags) r])"
    unfolding em using cnt by (cases "map_of (data c1) k") (auto simp: counted_def)
  then show ?thesis
    unfolding c1_def [symmetric] pre by (simp add: sub Counter_decrement_eq)
qed


text \<open>
  When \<^verbatim>\<open>sample_rate\<close> is unbound, the flush raises \<^verbatim>\<open>NameError\<close> and emits
  nothing as soon as one key has a sum that is not zero.
\<close>

lemma counter_flush_raises_when_unbound:
  assumes "\<not> STATSD_TRACK_MIDDLEWARE cfg" and "delta_sum k calls \<noteq> 0"
  shows "Counter_submit cfg (TagDict tags) (run_calls calls (Counter_init cfg p)) =
           (Some NameError, run_calls calls (Counter_init cfg p), [])"
proof -
  define c1 where "c1 = run_calls calls (Counter_init cfg p)"
  have u: "sample_rate cfg = None"
    using assms(1) by (simp add: sample_rate_def TRACK_MIDDLEWARE_def)
  have "counted (Counter_init cfg p) k = 0"
    by (simp add: counted_def Counter_init_def)
  then have "counted c1 k = delta_sum k calls"
    by (simp add: c1_def run_calls_counted)
  with assms(2) obtain v where "map_of (data c1) k = Some v" and "v \<noteq> 0"
    by (cases "map_of (data c1) k") (auto simp: counted_def)
  then have "(k, v) \<in> set (data c1)" and "v \<noteq> 0"
    by (auto dest: map_of_SomeD)
  then have "\<exists>(k, v) \<in> set (data c1). v \<noteq> 0"
    by blast
  then show ?thesis
    unfolding c1_def [symmetric]
    by (simp add: Counter_submit_def format_tags_def u Counter_submit_loop_unbound)
qed

text \<open>
  C4. The claim is that the value emitted for a key at the flush is the algebraic sum
  of the deltas of the \<^verbatim>\<open>increment\<close> and \<^verbatim>\<open>decrement\<close> calls. With every setting at
  its default the module never assigns \<^verbatim>\<open>sample_rate\<close>: after
  \<^verbatim>\<open>increment('a', 3)\<close> and \<^verbatim>\<open>decrement('a', 1)\<close> on a new counter the sum for
  \<^verbatim>\<open>a\<close> is 2 and the counter holds it, but the flush raises \<^verbatim>\<open>NameError\<close> and emits
  nothing.
\<close>

theorem counter_flush_unbound_sample_rate:
  "sample_rate default_settings = None \<and>
   delta_sum ''a'' [Inc ''a'' 3, Dec ''a'' 1] = 2 \<and>
   Counter_submit default_settings (TagDict [])
     (run_calls [Inc ''a'' 3, Dec ''a'' 1] (Counter_init default_settings ''view'')) =
     (Some NameError, \<lparr>prefix = ''view'', data = [(''a'', 2)]\<rparr>, [])"
  by (simp add: sample_rate_def TRACK_MIDDLEWARE_def default_settings_def delta_sum_def
        run_calls_def Counter_init_def Counter_increment_def Counter_decrement_def
        defaultdict_getitem_def Client_init_prefix_def Counter_submit_def format_tags_def)

text \<open>
  C1. The claim is that after a flush the mapping of either accumulator is empty and a
  second flush emits nothing. \<^verbatim>\<open>Timer.submit\<close> pops every key it emits
  (\<open>timer_flush_clears\<close>); \<^verbatim>\<open>Counter.submit\<close> does not: after
  \<^verbatim>\<open>increment('hit')\<close> and a flush, the counter still maps \<^verbatim>\<open>hit\<close> to 1, and a
  second flush emits the same event again.
\<close>

theorem counter_flush_keeps_data:
  "data (fst (snd (Counter_submit tracking_settings (TagDict [])
       (Counter_increment ''hit'' 1 (Counter_init tracking_settings ''view''))))) = [(''hit'', 1)] \<and>
   snd (snd (Counter_submit tracking_settings (TagDict [])
       (fst (snd (Counter_submit tracking_settings (TagDict [])
          (Counter_increment ''hit'' 1 (Counter_init tracking_settings ''view''))))))) =
     [Increment ''view.hit'' 1 [] 1]"
  by (simp add: Counter_submit_keeps)
     (simp add: Counter_submit_def Counter_increment_def Counter_init_def defaultdict_getitem_def
        format_tags_def sample_rate_def TRACK_MIDDLEWARE_def tracking_settings_def Client_init_prefix_def)

section \<open>The timer\<close>

text \<open>
  C5. For every timer and every key with no outstanding start, \<^verbatim>\<open>stop\<close> raises
  \<^verbatim>\<open>AssertionError\<close>: it returns no duration, records none (the accumulated durations
  are what they were) and leaves the key without an outstanding start.
\<close>

theorem timer_stop_without_start_error:
  assumes "outstanding t key = []"
  shows "fst (Timer_stop key now t) = Inl AssertionError \<and>
         data (snd (Timer_stop key now t)) = data t \<and>
         outstanding (snd (Timer_stop key now t)) key = []"
  using assms
  by (auto simp: Timer_stop_def outstanding_def defaultdict_getitem_def split: option.splits)

theorem timer_stop_without_start_error_witness:
  "outstanding (Timer_start ''db'' 1 (Timer_init tracking_settings ''view'')) ''render'' = [] \<and>
   fst (Timer_stop ''render'' 4 (Timer_start ''db'' 1 (Timer_init tracking_settings ''view''))) =
     Inl AssertionError \<and>
   data (snd (Timer_stop ''render'' 4 (Timer_start ''db'' 1 (Timer_init tracking_settings ''view'')))) =
     []"
proof -
  have h: "outstanding (Timer_start ''db'' 1 (Timer_init tracking_settings ''view'')) ''render'' = []"
    by (simp add: outstanding_def Timer_start_def Timer_init_def defaultdict_getitem_def)
  have d: "data (Timer_start ''db'' 1 (Timer_init tracking_settings ''view'')) = []"
    by (simp add: Timer_start_data Timer_init_def)
  show ?thesis
    using timer_stop_without_start_error [OF h, of 4]
    by (simp add: h d)
qed

text \<open>
  C6. For every timer, key and clock readings \<open>a\<close>, \<open>b\<close>, \<open>c\<close>, \<open>d\<close>, the sequence
  \<^verbatim>\<open>start(k); start(k); stop(k); stop(k)\<close> raises nothing: the first stop pops the
  second start and returns \<open>c - b\<close>, the second pops the first and returns \<open>d - a\<close>;
  afterwards the duration accumulated for the key is what it was (\<open>0\<close> for a key
  without one) plus the inner and then the outer duration, and the outstanding starts
  of the key are what they were.
\<close>

theorem nested_spans_accumulate:
  "fst (Timer_stop k c (Timer_start k b (Timer_start k a t))) = Inr (c - b) \<and>
   fst (Timer_stop k d (snd (Timer_stop k c (Timer_start k b (Timer_start k a t))))) = Inr (d - a) \<and>
   accumulated (snd (Timer_stop k d (snd (Timer_stop k c (Timer_start k b (Timer_start k a t)))))) k = (accumulated t k + (c - b)) + (d - a) \<and>
   outstanding (snd (Timer_stop k d (snd (Timer_stop k c (Timer_start k b (Timer_start k a t)))))) k = outstanding t k"
proof -
  define t2 where "t2 = Timer_start k b (Timer_start k a t)"
  define t3 where "t3 = snd (Timer_stop k c t2)"
  have o2: "outstanding t2 k = (outstanding t k @ [a]) @ [b]"
    by (simp add: t2_def Timer_start_outstanding)
  have a2: "accumulated t2 k = accumulated t k"
    by (simp add: t2_def Timer_start_accumulated)
  have n2: "outstanding t2 k \<noteq> []"
    by (simp add: o2)
  have r3: "fst (Timer_stop k c t2) = Inr (c - b)"
    using Timer_stop_ok [OF n2, of c] by (simp add: o2)
  have o3: "outstanding t3 k = outstanding t k @ [a]"
    using Timer_stop_ok_outstanding [OF n2, of c k] by (simp add: t3_def o2 butlast_append)
  have a3: "accumulated t3 k = accumulated t k + (c - b)"
    using Timer_stop_ok_total [OF n2, of c k] by (simp add: t3_def o2 a2)
  have n3: "outstanding t3 k \<noteq> []"
    by (simp add: o3)
  have r4: "fst (Timer_stop k d t3) = Inr (d - a)"
    using Timer_stop_ok [OF n3, of d] by (simp add: o3)
  have o4: "outstanding (snd (Timer_stop k d t3)) k = outstanding t k"
    using Timer_stop_ok_outstanding [OF n3, of d k] by (simp add: o3)
  have a4: "accumulated (snd (Timer_stop k d t3)) k = (accumulated t k + (c - b)) + (d - a)"
    using Timer_stop_ok_total [OF n3, of d k] by (simp add: o3 a3)
  from r3 r4 o4 a4 show ?thesis
    unfolding t3_def t2_def by simp
qed

text \<open>
  C10. For every timer and every key with no outstanding start, \<^verbatim>\<open>stop\<close> raises
  \<^verbatim>\<open>AssertionError\<close> and leaves an empty deque for the key in \<^verbatim>\<open>starts\<close>: when the
  key had no entry, the lookup inside the \<^verbatim>\<open>assert\<close> appends one. With
  \<^verbatim>\<open>DEBUG\<close> set (and \<^verbatim>\<open>sample_rate\<close> bound, a dict of tags) the next flush then
  raises \<^verbatim>\<open>AssertionError\<close> at its final check, whereas a timer on which nothing
  was ever started flushes without an exception.
\<close>

theorem failed_stop_inserts_empty_stack:
  assumes "outstanding t key = []" and "wf_dict (data t)" and "DEBUG cfg" and "sample_rate cfg = Some r"
  shows "fst (Timer_stop key now t) = Inl AssertionError \<and>
         map_of (starts (snd (Timer_stop key now t))) key = Some [] \<and>
         (map_of (starts t) key = None \<longrightarrow>
            starts (snd (Timer_stop key now t)) = starts t @ [(key, [])]) \<and>
         fst (Timer_submit cfg (TagDict tags) (snd (Timer_stop key now t))) = Some AssertionError \<and>
         (starts t = [] \<longrightarrow> fst (Timer_submit cfg (TagDict tags) t) = None)"
proof -
  define t' where "t' = snd (Timer_stop key now t)"
  have e: "fst (Timer_stop key now t) = Inl AssertionError"
    using assms(1) by (auto simp: Timer_stop_def outstanding_def defaultdict_getitem_def split: option.splits)
  have s: "starts t' = (case map_of (starts t) key of None \<Rightarrow> starts t @ [(key, [])] | Some s \<Rightarrow> starts t)"
    using assms(1) by (auto simp: t'_def Timer_stop_def outstanding_def defaultdict_getitem_def split: option.splits)
  have m: "map_of (starts t') key = Some []"
    using assms(1) by (auto simp: s outstanding_def map_add_def split: option.splits)
  have d: "data t' = data t"
    using assms(1) by (auto simp: t'_def Timer_stop_def outstanding_def defaultdict_getitem_def split: option.splits)
  have n: "starts t' \<noteq> []"
    using m by auto
  have f: "fst (Timer_submit cfg (TagDict tags) t') = Some AssertionError"
    using assms(2,3,4) n by (simp add: Timer_submit_bound d)
  have g: "starts t = [] \<longrightarrow> fst (Timer_submit cfg (TagDict tags) t) = None"
    using assms(2,4) by (simp add: Timer_submit_bound)
  show ?thesis
    using e s m f g unfolding t'_def by simp
qed

theorem failed_stop_inserts_empty_stack_witness:
  "outstanding (Timer_init debug_settings ''view'') ''db'' = [] \<and>
   wf_dict (data (Timer_init debug_settings ''view'')) \<and>
   DEBUG debug_settings \<and> sample_rate debug_settings = Some 1 \<and>
   fst (Timer_stop ''db'' 4 (Timer_init debug_settings ''view'')) = Inl AssertionError \<and>
   starts (snd (Timer_stop ''db'' 4 (Timer_init debug_settings ''view''))) = [(''db'', [])] \<and>
   fst (Timer_submit debug_settings (TagDict [])
          (snd (Timer_stop ''db'' 4 (Timer_init debug_settings ''view'')))) = Some AssertionError \<and>
   fst (Timer_submit debug_settings (TagDict []) (Timer_init debug_settings ''view'')) = None"
proof -
  have o: "outstanding (Timer_init debug_settings ''view'') ''db'' = []"
    by (simp add: outstanding_def Timer_init_def)
  have w: "wf_dict (data (Timer_init debug_settings ''view''))"
    by (simp add: wf_dict_def Timer_init_def)
  have d: "DEBUG debug_settings"
    by (simp add: debug_settings_def)
  have h: "sample_rate debug_settings = Some 1"
    by (simp add: sample_rate_def TRACK_MIDDLEWARE_def debug_settings_def)
  have s: "starts (Timer_init debug_settings ''view'') = []"
    by (simp add: Timer_init_def)
  show ?thesis
    using failed_stop_inserts_empty_stack [OF o w d h, of 4 "[]"]
    by (simp add: o w d h s)
qed

section \<open>The middleware\<close>

lemma start_scope_timings:
  "scope_timings (StatsdMiddleware_start cfg p now w) = Some (timer_next w)"
  by (simp add: StatsdMiddleware_start_def set_timer_def Let_def)

lemma start_timer:
  "timer_heap (StatsdMiddleware_start cfg p now w) (timer_next w) =
     \<lparr>prefix = Client_init_prefix cfg p, data = [], starts = [(''total'', [now])]\<rparr>"
  by (simp add: StatsdMiddleware_start_def set_timer_def Let_def Timer_init_def Timer_start_def
        defaultdict_getitem_def)

lemma start_scope_counter:
  "scope_counter (StatsdMiddleware_start cfg p now w) =
     Some \<lparr>prefix = Client_init_prefix cfg p, data = [(''hit'', 1)]\<rparr>"
  by (simp add: StatsdMiddleware_start_def set_timer_def Let_def Counter_init_def
        Counter_increment_def defaultdict_getitem_def)

lemma start_scope_counter_site:
  "scope_counter_site (StatsdMiddleware_start cfg p now w) =
     Some \<lparr>prefix = Client_init_prefix cfg p, data = [(''hit'', 1)]\<rparr>"
  by (simp add: StatsdMiddleware_start_def set_timer_def Let_def Counter_init_def
        Counter_increment_def defaultdict_getitem_def)

lemma start_sink: "sink (StatsdMiddleware_start cfg p now w) = sink w"
  by (simp add: StatsdMiddleware_start_def set_timer_def Let_def)

lemma stop_total_after_start:
  "Timer_stop ''total'' t1 \<lparr>prefix = P, data = [], starts = [(''total'', [t0])]\<rparr> =
     (Inr (t1 - t0), \<lparr>prefix = P, data = [(''total'', 0 + (t1 - t0))], starts = []\<rparr>)"
  by (simp add: Timer_stop_def defaultdict_getitem_def Let_def)

lemma stop_inactive:
  "scope_timings w = None \<Longrightarrow> StatsdMiddleware_stop cfg tags now w = (Inr (), w)"
  by (simp add: StatsdMiddleware_stop_def)

lemma stop_raises:
  assumes "scope_timings w = Some a" and "fst (Timer_stop ''total'' now (timer_heap w a)) = Inl e"
  shows "fst (StatsdMiddleware_stop cfg tags now w) = Inl e \<and>
         sink (snd (StatsdMiddleware_stop cfg tags now w)) = sink w"
  using assms by (cases "Timer_stop ''total'' now (timer_heap w a)")
    (simp add: StatsdMiddleware_stop_def set_timer_def)

lemma stop_active:
  assumes "scope_timings w = Some a" and "scope_counter w = Some c" and "scope_counter_site w = Some cs"
    and "Timer_stop ''total'' now (timer_heap w a) = (Inr delta, t1)"
    and "Timer_submit cfg tags t1 = (None, t2, es2)"
    and "Counter_submit cfg tags c = (None, c3, es3)"
    and "Counter_submit cfg (TagDict [(''type'', ''site'')]) cs = (None, c4, es4)"
  shows "fst (StatsdMiddleware_stop cfg tags now w) = Inr () \<and>
         sink (snd (StatsdMiddleware_stop cfg tags now w)) = sink w @ es2 @ es3 @ es4 \<and>
         timer_heap (snd (StatsdMiddleware_stop cfg tags now w)) a = t2"
  using assms by (simp add: StatsdMiddleware_stop_def set_timer_def emit_def submit_counter_def)


lemma submit_total:
  assumes "sample_rate cfg = Some r"
  shows "Timer_submit cfg (TagDict tags) \<lparr>prefix = P, data = [(''total'', v)], starts = []\<rparr> =
           (None, \<lparr>prefix = P, data = [], starts = []\<rparr>,
            [Timing (P @ ''.total'') v (map (\<lambda>(a, b). a @ '':'' @ b) tags) r])"
  using assms by (simp add: Timer_submit_def format_tags_def Let_def)

lemma submit_hit:
  assumes "sample_rate cfg = Some r" and "n \<noteq> 0"
  shows "Counter_submit cfg (TagDict tags) \<lparr>prefix = P, data = [(''hit'', n)]\<rparr> =
           (None, \<lparr>prefix = P, data = [(''hit'', n)]\<rparr>,
            [Increment (P @ ''.hit'') n (map (\<lambda>(a, b). a @ '':'' @ b) tags) r])"
  using assms by (simp add: Counter_submit_def format_tags_def)

lemma incr_after_start:
  "incr ''hit'' 1 (StatsdMiddleware_start cfg p now w) =
     (StatsdMiddleware_start cfg p now w)
       \<lparr>scope_counter := Some \<lparr>prefix = Client_init_prefix cfg p, data = [(''hit'', 2)]\<rparr>\<rparr>"
  by (simp add: incr_def start_scope_counter Counter_increment_def defaultdict_getitem_def)

lemma stop_timer_flush_raises:
  assumes "scope_timings w = Some a"
    and "Timer_stop ''total'' now (timer_heap w a) = (Inr delta, t1)"
    and "Timer_submit cfg tags t1 = (Some e, t2, es2)"
  shows "fst (StatsdMiddleware_stop cfg tags now w) = Inl e \<and>
         sink (snd (StatsdMiddleware_stop cfg tags now w)) = sink w @ es2"
  using assms by (simp add: StatsdMiddleware_stop_def set_timer_def emit_def)

lemma stop_counter_flush_raises:
  assumes "scope_timings w = Some a" and "scope_counter w = Some c"
    and "Timer_stop ''total'' now (timer_heap w a) = (Inr delta, t1)"
    and "Timer_submit cfg tags t1 = (None, t2, es2)"
    and "Counter_submit cfg tags c = (Some e, c3, es3)"
  shows "fst (StatsdMiddleware_stop cfg tags now w) = Inl e \<and>
         sink (snd (StatsdMiddleware_stop cfg tags now w)) = sink w @ es2 @ es3"
  using assms by (simp add: StatsdMiddleware_stop_def set_timer_def emit_def submit_counter_def)

lemma scenario_run:
  assumes "STATSD_PREFIX cfg = None" and "sample_rate cfg = Some r"
  shows "fst (StatsdMiddleware_stop cfg (TagDict [(''method'', ''get'')]) t1
                (incr ''hit'' 1 (StatsdMiddleware_start cfg ''view'' t0 w))) = Inr () \<and>
         sink (snd (StatsdMiddleware_stop cfg (TagDict [(''method'', ''get'')]) t1
                (incr ''hit'' 1 (StatsdMiddleware_start cfg ''view'' t0 w)))) =
           sink w @
           [Timing ''view.total'' (0 + (t1 - t0)) [''method:get''] r,
            Increment ''view.hit'' 2 [''method:get''] r,
            Increment ''view.hit'' 1 [''type:site''] r]"
proof -
  define w1 where "w1 = incr ''hit'' 1 (StatsdMiddleware_start cfg ''view'' t0 w)"
  have P: "Client_init_prefix cfg ''view'' = ''view''"
    using assms(1) by (simp add: Client_init_prefix_def)
  have a: "scope_timings w1 = Some (timer_next w)"
    by (simp add: w1_def incr_after_start start_scope_timings)
  have c: "scope_counter w1 = Some \<lparr>prefix = ''view'', data = [(''hit'', 2)]\<rparr>"
    by (simp add: w1_def incr_after_start P)
  have cs: "scope_counter_site w1 = Some \<lparr>prefix = ''view'', data = [(''hit'', 1)]\<rparr>"
    by (simp add: w1_def incr_after_start start_scope_counter_site P)
  have t: "timer_heap w1 (timer_next w) = \<lparr>prefix = ''view'', data = [], starts = [(''total'', [t0])]\<rparr>"
    by (simp add: w1_def incr_after_start start_timer P)
  have s: "sink w1 = sink w"
    by (simp add: w1_def incr_after_start start_sink)
  have st: "Timer_stop ''total'' t1 (timer_heap w1 (timer_next w)) =
      (Inr (t1 - t0), \<lparr>prefix = ''view'', data = [(''total'', 0 + (t1 - t0))], starts = []\<rparr>)"
    unfolding t by (rule stop_total_after_start)
  have f1: "Timer_submit cfg (TagDict [(''method'', ''get'')])
              \<lparr>prefix = ''view'', data = [(''total'', 0 + (t1 - t0))], starts = []\<rparr> =
            (None, \<lparr>prefix = ''view'', data = [], starts = []\<rparr>,
             [Timing ''view.total'' (0 + (t1 - t0)) [''method:get''] r])"
    using submit_total [OF assms(2), of "[(''method'', ''get'')]" "''view''"] by simp
  have f2: "Counter_submit cfg (TagDict [(''method'', ''get'')]) \<lparr>prefix = ''view'', data = [(''hit'', 2)]\<rparr> =
            (None, \<lparr>prefix = ''view'', data = [(''hit'', 2)]\<rparr>,
             [Increment ''view.hit'' 2 [''method:get''] r])"
    using submit_hit [OF assms(2), of 2 "[(''method'', ''get'')]" "''view''"] by simp
  have f3: "Counter_submit cfg (TagDict [(''type'', ''site'')]) \<lparr>prefix = ''view'', data = [(''hit'', 1)]\<rparr> =
            (None, \<lparr>prefix = ''view'', data = [(''hit'', 1)]\<rparr>,
             [Increment ''view.hit'' 1 [''type:site''] r])"
    using submit_hit [OF assms(2), of 1 "[(''type'', ''site'')]" "''view''"] by simp
  show ?thesis
    using stop_active [OF a c cs st f1 f2 f3]
    unfolding w1_def [symmetric] by (simp add: s)
qed

text \<open>
  C2, as amended. With no global prefix and \<^verbatim>\<open>sample_rate\<close> bound, the sequence
  \<^verbatim>\<open>StatsdMiddleware.start('view')\<close> at time \<open>t0\<close>, \<^verbatim>\<open>incr('hit')\<close>,
  \<^verbatim>\<open>StatsdMiddleware.stop({'method': 'get'})\<close> at time \<open>t1\<close> raises nothing and sends
  to the backend exactly, in this order: the timing \<^verbatim>\<open>view.total\<close> with the elapsed
  time added to 0, tagged \<^verbatim>\<open>method:get\<close>; the counter \<^verbatim>\<open>view.hit\<close> with value 2,
  tagged \<^verbatim>\<open>method:get\<close> (one hit counted by \<^verbatim>\<open>start\<close>, one by \<^verbatim>\<open>incr\<close>); the
  counter \<^verbatim>\<open>view.hit\<close> with value 1, tagged \<^verbatim>\<open>type:site\<close>.
\<close>

theorem scenario_emissions:
  assumes "STATSD_PREFIX cfg = None" and "sample_rate cfg = Some r"
  shows "fst (StatsdMiddleware_stop cfg (TagDict [(''method'', ''get'')]) t1
                (incr ''hit'' 1 (StatsdMiddleware_start cfg ''view'' t0 w))) = Inr () \<and>
         sink (snd (StatsdMiddleware_stop cfg (TagDict [(''method'', ''get'')]) t1
                (incr ''hit'' 1 (StatsdMiddleware_start cfg ''view'' t0 w)))) =
           sink w @
           [Timing ''view.total'' (0 + (t1 - t0)) [''method:get''] r,
            Increment ''view.hit'' 2 [''method:get''] r,
            Increment ''view.hit'' 1 [''type:site''] r]"
  using assms by (rule scenario_run)

theorem scenario_emissions_witness:
  "STATSD_PREFIX tracking_settings = None \<and> sample_rate tracking_settings = Some 1 \<and>
   sink (snd (StatsdMiddleware_stop tracking_settings (TagDict [(''method'', ''get'')]) 5
                (incr ''hit'' 1 (StatsdMiddleware_start tracking_settings ''view'' 2 fresh_world)))) =
     [Timing ''view.total'' 3 [''method:get''] 1,
      Increment ''view.hit'' 2 [''method:get''] 1,
      Increment ''view.hit'' 1 [''type:site''] 1]"
proof -
  have p: "STATSD_PREFIX tracking_settings = None"
    by (simp add: tracking_settings_def)
  have h: "sample_rate tracking_settings = Some 1"
    by (simp add: sample_rate_def TRACK_MIDDLEWARE_def tracking_settings_def)
  have s: "sink fresh_world = []"
    by (simp add: fresh_world_def)
  show ?thesis
    using scenario_emissions [OF p h, of 5 2 fresh_world] by (simp add: p h s)
qed

text \<open>
  The scenario as the claim C2 states it fails: no event \<^verbatim>\<open>view.hit\<close> with value 1
  and tag \<^verbatim>\<open>method:get\<close> is emitted; the event emitted has value 2.
\<close>

theorem scenario_primary_hit_counterexample:
  "Increment ''view.hit'' 1 [''method:get''] 1 \<notin>
     set (sink (snd (StatsdMiddleware_stop tracking_settings (TagDict [(''method'', ''get'')]) 5
                (incr ''hit'' 1 (StatsdMiddleware_start tracking_settings ''view'' 2 fresh_world))))) \<and>
   Increment ''view.hit'' 2 [''method:get''] 1 \<in>
     set (sink (snd (StatsdMiddleware_stop tracking_settings (TagDict [(''method'', ''get'')]) 5
                (incr ''hit'' 1 (StatsdMiddleware_start tracking_settings ''view'' 2 fresh_world)))))"
proof -
  have p: "STATSD_PREFIX tracking_settings = None"
    by (simp add: tracking_settings_def)
  have h: "sample_rate tracking_settings = Some 1"
    by (simp add: sample_rate_def TRACK_MIDDLEWARE_def tracking_settings_def)
  have s: "sink fresh_world = []"
    by (simp add: fresh_world_def)
  have "sink (snd (StatsdMiddleware_stop tracking_settings (TagDict [(''method'', ''get'')]) 5
                (incr ''hit'' 1 (StatsdMiddleware_start tracking_settings ''view'' 2 fresh_world)))) =
     [Timing ''view.total'' (0 + (5 - 2)) [''method:get''] 1,
      Increment ''view.hit'' 2 [''method:get''] 1,
      Increment ''view.hit'' 1 [''type:site''] 1]"
    using scenario_run [OF p h, of 5 2 fresh_world] by (simp add: s)
  then show ?thesis
    by simp
qed


text \<open>
  With \<^verbatim>\<open>STATSD_TRACK_MIDDLEWARE\<close> unset (its default) the name \<^verbatim>\<open>sample_rate\<close> is
  unbound and the same scenario raises \<^verbatim>\<open>NameError\<close> at its first emission.
\<close>

lemma scenario_unbound_sample_rate:
  assumes "\<not> STATSD_TRACK_MIDDLEWARE cfg"
  shows "fst (StatsdMiddleware_stop cfg (TagDict tags) t1
                (incr ''hit'' 1 (StatsdMiddleware_start cfg ''view'' t0 w))) = Inl NameError \<and>
         sink (snd (StatsdMiddleware_stop cfg (TagDict tags) t1
                (incr ''hit'' 1 (StatsdMiddleware_start cfg ''view'' t0 w)))) = sink w"
proof -
  define w1 where "w1 = incr ''hit'' 1 (StatsdMiddleware_start cfg ''view'' t0 w)"
  have u: "sample_rate cfg = None"
    using assms by (simp add: sample_rate_def TRACK_MIDDLEWARE_def)
  have a: "scope_timings w1 = Some (timer_next w)"
    by (simp add: w1_def incr_after_start start_scope_timings)
  have t: "timer_heap w1 (timer_next w) =
      \<lparr>prefix = Client_init_prefix cfg ''view'', data = [], starts = [(''total'', [t0])]\<rparr>"
    by (simp add: w1_def incr_after_start start_timer)
  have s: "sink w1 = sink w"
    by (simp add: w1_def incr_after_start start_sink)
  show ?thesis
    unfolding w1_def [symmetric]
    by (simp add: StatsdMiddleware_stop_def a t stop_total_after_start Timer_submit_def
          format_tags_def u set_timer_def emit_def s)
qed

text \<open>
  C7. \<^verbatim>\<open>StatsdMiddleware.stop(tags)\<close> returns without any effect when the scope has no
  timer. When it has one, it stops \<^verbatim>\<open>total\<close>, then flushes the timer as the stop left
  it with \<open>tags\<close>, then the primary counter with \<open>tags\<close>, then the site counter with
  \<^verbatim>\<open>{'type': 'site'}\<close>: the emissions reach the backend in this order, and an
  exception raised by one step ends the call before the later steps emit anything.
\<close>

theorem middleware_stop_sequence:
  "(scope_timings w = None \<longrightarrow> StatsdMiddleware_stop cfg tags now w = (Inr (), w)) \<and>
   (scope_timings w = Some a \<and> fst (Timer_stop ''total'' now (timer_heap w a)) = Inl e \<longrightarrow>
      fst (StatsdMiddleware_stop cfg tags now w) = Inl e \<and>
      sink (snd (StatsdMiddleware_stop cfg tags now w)) = sink w) \<and>
   (scope_timings w = Some a \<and>
    Timer_stop ''total'' now (timer_heap w a) = (Inr delta, t1) \<and>
    Timer_submit cfg tags t1 = (Some e, t2, es2) \<longrightarrow>
      fst (StatsdMiddleware_stop cfg tags now w) = Inl e \<and>
      sink (snd (StatsdMiddleware_stop cfg tags now w)) = sink w @ es2) \<and>
   (scope_timings w = Some a \<and> scope_counter w = Some c \<and>
    Timer_stop ''total'' now (timer_heap w a) = (Inr delta, t1) \<and>
    Timer_submit cfg tags t1 = (None, t2, es2) \<and>
    Counter_submit cfg tags c = (Some e, c3, es3) \<longrightarrow>
      fst (StatsdMiddleware_stop cfg tags now w) = Inl e \<and>
      sink (snd (StatsdMiddleware_stop cfg tags now w)) = sink w @ es2 @ es3) \<and>
   (scope_timings w = Some a \<and> scope_counter w = Some c \<and> scope_counter_site w = Some cs \<and>
    Timer_stop ''total'' now (timer_heap w a) = (Inr delta, t1) \<and>
    Timer_submit cfg tags t1 = (None, t2, es2) \<and>
    Counter_submit cfg tags c = (None, c3, es3) \<and>
    Counter_submit cfg (TagDict [(''type'', ''site'')]) cs = (None, c4, es4) \<longrightarrow>
      fst (StatsdMiddleware_stop cfg tags now w) = Inr () \<and>
      sink (snd (StatsdMiddleware_stop cfg tags now w)) = sink w @ es2 @ es3 @ es4 \<and>
      timer_heap (snd (StatsdMiddleware_stop cfg tags now w)) a = t2)"
  using stop_inactive [of w cfg tags now] stop_raises [of w a now e cfg tags]
    stop_timer_flush_raises [of w a now delta t1 cfg tags e t2 es2]
    stop_counter_flush_raises [of w a c now delta t1 cfg tags t2 es2 e c3 es3]
    stop_active [of w a c cs now delta t1 cfg tags t2 es2 c3 es3 c4 es4]
  by blast

theorem middleware_stop_sequence_witness:
  "scope_timings fresh_world = None \<and>
   StatsdMiddleware_stop tracking_settings (TagDict [(''method'', ''get'')]) 5 fresh_world =
     (Inr (), fresh_world) \<and>
   scope_timings (StatsdMiddleware_start tracking_settings ''view'' 2 fresh_world) = Some 0 \<and>
   fst (StatsdMiddleware_stop tracking_settings (TagDict [(''method'', ''get'')]) 5
          (StatsdMiddleware_start tracking_settings ''view'' 2 fresh_world)) = Inr () \<and>
   sink (snd (StatsdMiddleware_stop tracking_settings (TagDict [(''method'', ''get'')]) 5
          (StatsdMiddleware_start tracking_settings ''view'' 2 fresh_world))) =
     [Timing ''view.total'' 3 [''method:get''] 1,
      Increment ''view.hit'' 1 [''method:get''] 1,
      Increment ''view.hit'' 1 [''type:site''] 1]"
proof -
  define w1 where "w1 = StatsdMiddleware_start tracking_settings ''view'' 2 fresh_world"
  have n: "scope_timings fresh_world = None" and z: "timer_next fresh_world = 0"
    and s0: "sink fresh_world = []"
    by (simp_all add: fresh_world_def)
  have h: "sample_rate tracking_settings = Some 1"
    by (simp add: sample_rate_def TRACK_MIDDLEWARE_def tracking_settings_def)
  have P: "Client_init_prefix tracking_settings ''view'' = ''view''"
    by (simp add: Client_init_prefix_def tracking_settings_def)
  have a: "scope_timings w1 = Some 0"
    by (simp add: w1_def start_scope_timings z)
  have c: "scope_counter w1 = Some \<lparr>prefix = ''view'', data = [(''hit'', 1)]\<rparr>"
    by (simp add: w1_def start_scope_counter P)
  have cs: "scope_counter_site w1 = Some \<lparr>prefix = ''view'', data = [(''hit'', 1)]\<rparr>"
    by (simp add: w1_def start_scope_counter_site P)
  have s: "sink w1 = []"
    by (simp add: w1_def start_sink s0)
  have t: "timer_heap w1 0 = \<lparr>prefix = ''view'', data = [], starts = [(''total'', [2])]\<rparr>"
    using start_timer [of tracking_settings "''view''" 2 fresh_world] by (simp add: w1_def z P)
  have st: "Timer_stop ''total'' 5 (timer_heap w1 0) =
      (Inr (5 - 2), \<lparr>prefix = ''view'', data = [(''total'', 0 + (5 - 2))], starts = []\<rparr>)"
    unfolding t by (rule stop_total_after_start)
  have f1: "Timer_submit tracking_settings (TagDict [(''method'', ''get'')])
              \<lparr>prefix = ''view'', data = [(''total'', 0 + (5 - 2))], starts = []\<rparr> =
            (None, \<lparr>prefix = ''view'', data = [], starts = []\<rparr>,
             [Timing ''view.total'' (0 + (5 - 2)) [''method:get''] 1])"
    using submit_total [OF h, of "[(''method'', ''get'')]" "''view''" "0 + (5 - 2)"] by simp
  have f2: "Counter_submit tracking_settings (TagDict [(''method'', ''get'')])
              \<lparr>prefix = ''view'', data = [(''hit'', 1)]\<rparr> =
            (None, \<lparr>prefix = ''view'', data = [(''hit'', 1)]\<rparr>,
             [Increment ''view.hit'' 1 [''method:get''] 1])"
    using submit_hit [OF h, of 1 "[(''method'', ''get'')]" "''view''"] by simp
  have f3: "Counter_submit tracking_settings (TagDict [(''type'', ''site'')])
              \<lparr>prefix = ''view'', data = [(''hit'', 1)]\<rparr> =
            (None, \<lparr>prefix = ''view'', data = [(''hit'', 1)]\<rparr>,
             [Increment ''view.hit'' 1 [''type:site''] 1])"
    using submit_hit [OF h, of 1 "[(''type'', ''site'')]" "''view''"] by simp
  have inactive: "StatsdMiddleware_stop tracking_settings (TagDict [(''method'', ''get'')]) 5 fresh_world =
      (Inr (), fresh_world)"
    using middleware_stop_sequence [where w = fresh_world] n by blast
  have active: "fst (StatsdMiddleware_stop tracking_settings (TagDict [(''method'', ''get'')]) 5 w1) = Inr () \<and>
      sink (snd (StatsdMiddleware_stop tracking_settings (TagDict [(''method'', ''get'')]) 5 w1)) =
        sink w1 @ [Timing ''view.total'' (0 + (5 - 2)) [''method:get''] 1] @
          [Increment ''view.hit'' 1 [''method:get''] 1] @ [Increment ''view.hit'' 1 [''type:site''] 1]"
    using middleware_stop_sequence [where w = w1 and a = 0 and cfg = tracking_settings
        and tags = "TagDict [(''method'', ''get'')]" and now = 5] a c cs st f1 f2 f3
    by blast
  show ?thesis
    using inactive active unfolding w1_def [symmetric] by (simp add: n a s)
qed

text \<open>
  C9. The claim is that cleanup clears every binding of the scope. Neither
  \<^verbatim>\<open>StatsdMiddleware.cleanup\<close> nor \<^verbatim>\<open>celery.clear\<close> does: after
  \<^verbatim>\<open>start\<close> and \<^verbatim>\<open>cleanup\<close> the site counter is still bound and holds its hit;
  after \<^verbatim>\<open>celery.start\<close> and \<^verbatim>\<open>celery.clear\<close> both counters are, and a later
  \<^verbatim>\<open>incr\<close> still counts on the primary one. Nothing is emitted by either
  (\<open>cleanup_emits_nothing\<close>).
\<close>

theorem cleanup_keeps_site_counter:
  "scope_counter_site (StatsdMiddleware_cleanup (StatsdMiddleware_start tracking_settings ''view'' 2 fresh_world)) =
     Some \<lparr>prefix = ''view'', data = [(''hit'', 1)]\<rparr> \<and>
   scope_counter (celery_clear (celery_start tracking_settings 2 fresh_world)) =
     Some \<lparr>prefix = ''celery'', data = [(''hit'', 1)]\<rparr> \<and>
   scope_counter_site (celery_clear (celery_start tracking_settings 2 fresh_world)) =
     Some \<lparr>prefix = ''celery'', data = [(''hit'', 1)]\<rparr> \<and>
   scope_counter (incr ''late'' 1 (celery_clear (celery_start tracking_settings 2 fresh_world))) =
     Some \<lparr>prefix = ''celery'', data = [(''hit'', 1), (''late'', 1)]\<rparr>"
  by (simp add: StatsdMiddleware_cleanup_def celery_clear_def celery_start_def start_scope_counter
        start_scope_counter_site Client_init_prefix_def tracking_settings_def incr_def
        Counter_increment_def defaultdict_getitem_def)

lemma cleanup_emits_nothing:
  "sink (StatsdMiddleware_cleanup w) = sink w \<and> sink (celery_clear w) = sink w \<and>
   scope_timings (StatsdMiddleware_cleanup w) = None \<and>
   scope_counter (StatsdMiddleware_cleanup w) = None \<and>
   scope_timings (celery_clear w) = None \<and>
   StatsdMiddleware_stop cfg tags now (StatsdMiddleware_cleanup w) = (Inr (), StatsdMiddleware_cleanup w) \<and>
   StatsdMiddleware_stop cfg tags now (celery_clear w) = (Inr (), celery_clear w)"
  by (simp add: StatsdMiddleware_cleanup_def celery_clear_def StatsdMiddleware_stop_def)

section \<open>The span helper\<close>

text \<open>
  C8. When the scope has no timer, \<^verbatim>\<open>with_(key)\<close> is a \<^verbatim>\<open>DummyWith\<close>: entering and
  leaving it change nothing and raise nothing, and the wrapped call behaves as if
  unwrapped. When the scope has the timer at address \<open>a\<close>, \<^verbatim>\<open>with_(key)\<close> is a
  \<^verbatim>\<open>WithTimer\<close> on that timer: entering calls \<^verbatim>\<open>start(key)\<close> on it, leaving calls
  \<^verbatim>\<open>stop(key)\<close> on it, and the wrapped block is followed by that \<^verbatim>\<open>stop\<close> whether
  it returned or raised; the outcome of the block is kept unless the \<^verbatim>\<open>stop\<close> raises.
\<close>

theorem with_span_acquire_release:
  "(scope_timings w = None \<longrightarrow>
      with_timer key w = DummyWith \<and>
      enter (with_timer key w) t_in w' = w' \<and>
      exit (with_timer key w) t_out w' = (Inr (), w') \<and>
      named_wrapper key f t_in t_out w = f w) \<and>
   (scope_timings w = Some a \<longrightarrow>
      with_timer key w = WithTimer a key \<and>
      enter (with_timer key w) t_in w' = set_timer a (Timer_start key t_in (timer_heap w' a)) w' \<and>
      snd (exit (with_timer key w) t_out w') =
        set_timer a (snd (Timer_stop key t_out (timer_heap w' a))) w' \<and>
      snd (named_wrapper key f t_in t_out w) =
        set_timer a
          (snd (Timer_stop key t_out
             (timer_heap (snd (f (set_timer a (Timer_start key t_in (timer_heap w a)) w))) a)))
          (snd (f (set_timer a (Timer_start key t_in (timer_heap w a)) w))) \<and>
      fst (named_wrapper key f t_in t_out w) =
        (case fst (Timer_stop key t_out
             (timer_heap (snd (f (set_timer a (Timer_start key t_in (timer_heap w a)) w))) a)) of
           Inl e \<Rightarrow> Inl e
         | Inr delta \<Rightarrow> fst (f (set_timer a (Timer_start key t_in (timer_heap w a)) w))))"
  by (auto simp: with_timer_def named_wrapper_def Let_def split: prod.splits sum.splits)

theorem with_span_acquire_release_witness:
  "scope_timings fresh_world = None \<and>
   named_wrapper ''db'' (\<lambda>w. (Inl KeyError :: error + unit, w)) 4 7 fresh_world =
     (Inl KeyError, fresh_world) \<and>
   scope_timings (StatsdMiddleware_start tracking_settings ''view'' 2 fresh_world) = Some 0 \<and>
   fst (named_wrapper ''db'' (\<lambda>w. (Inl KeyError :: error + unit, w)) 4 7
          (StatsdMiddleware_start tracking_settings ''view'' 2 fresh_world)) = Inl KeyError \<and>
   timer_heap (snd (named_wrapper ''db'' (\<lambda>w. (Inl KeyError :: error + unit, w)) 4 7
          (StatsdMiddleware_start tracking_settings ''view'' 2 fresh_world))) 0 =
     \<lparr>prefix = ''view'', data = [(''db'', 3)], starts = [(''total'', [2])]\<rparr>"
proof -
  define w1 where "w1 = StatsdMiddleware_start tracking_settings ''view'' 2 fresh_world"
  define f where "f = (\<lambda>w :: real world. (Inl KeyError :: error + unit, w))"
  have n: "scope_timings fresh_world = None" and z: "timer_next fresh_world = 0"
    by (simp_all add: fresh_world_def)
  have P: "Client_init_prefix tracking_settings ''view'' = ''view''"
    by (simp add: Client_init_prefix_def tracking_settings_def)
  have a: "scope_timings w1 = Some 0"
    by (simp add: w1_def start_scope_timings z)
  have t: "timer_heap w1 0 = \<lparr>prefix = ''view'', data = [], starts = [(''total'', [2])]\<rparr>"
    using start_timer [of tracking_settings "''view''" 2 fresh_world] by (simp add: w1_def z P)
  have st: "Timer_stop ''db'' 7 (Timer_start ''db'' 4 (timer_heap w1 0)) =
      (Inr 3, \<lparr>prefix = ''view'', data = [(''db'', 3)], starts = [(''total'', [2])]\<rparr>)"
    by (simp add: t Timer_start_def Timer_stop_def defaultdict_getitem_def Let_def)
  have inactive: "named_wrapper ''db'' f 4 7 fresh_world = f fresh_world"
    using with_span_acquire_release [where w = fresh_world and key = "''db''" and f = f] n by blast
  have active: "snd (named_wrapper ''db'' f 4 7 w1) =
        set_timer 0
          (snd (Timer_stop ''db'' 7
             (timer_heap (snd (f (set_timer 0 (Timer_start ''db'' 4 (timer_heap w1 0)) w1))) 0)))
          (snd (f (set_timer 0 (Timer_start ''db'' 4 (timer_heap w1 0)) w1))) \<and>
      fst (named_wrapper ''db'' f 4 7 w1) =
        (case fst (Timer_stop ''db'' 7
             (timer_heap (snd (f (set_timer 0 (Timer_start ''db'' 4 (timer_heap w1 0)) w1))) 0)) of
           Inl e \<Rightarrow> Inl e
         | Inr delta \<Rightarrow> fst (f (set_timer 0 (Timer_start ''db'' 4 (timer_heap w1 0)) w1)))"
    using with_span_acquire_release [where w = w1 and key = "''db''" and f = f and a = 0
        and t_in = 4 and t_out = 7] a by blast
  have h: "timer_heap (snd (f (set_timer 0 (Timer_start ''db'' 4 (timer_heap w1 0)) w1))) 0 =
      Timer_start ''db'' 4 (timer_heap w1 0)"
    by (simp add: f_def set_timer_def)
  show ?thesis
    using inactive active unfolding h st w1_def [symmetric] f_def [symmetric]
    by (simp add: n a) (simp add: f_def set_timer_def)
qed
section \<open>The celery handlers\<close>

text \<open>
  C3. The claim is that the handler of \<^verbatim>\<open>task_postrun\<close> ends the scope with an empty
  dict of tags and the flush succeeds. \<^verbatim>\<open>celery.stop\<close> passes the name of the task, a
  string: after \<^verbatim>\<open>celery.start\<close> it raises \<^verbatim>\<open>AttributeError\<close> at
  \<^verbatim>\<open>tags.items()\<close> in \<^verbatim>\<open>Timer.submit\<close>, nothing is emitted, and the assignment
  that clears \<^verbatim>\<open>scope.timings\<close> is not reached.
\<close>

theorem celery_stop_raises:
  "fst (celery_stop cfg (Some name) t1 (celery_start cfg t0 w)) = Inl AttributeError \<and>
   sink (snd (celery_stop cfg (Some name) t1 (celery_start cfg t0 w))) = sink w \<and>
   scope_timings (snd (celery_stop cfg (Some name) t1 (celery_start cfg t0 w))) = Some (timer_next w)"
  by (simp add: celery_stop_def celery_start_def StatsdMiddleware_stop_def start_scope_timings
        start_timer stop_total_after_start Timer_submit_def format_tags_def set_timer_def
        emit_def start_sink)

end
